theory Spec2Isabelle
  imports Main "HOL-Library.Word"
begin

section \<open>The host application as seen by the command handlers\<close>

text \<open>
  Every handler of the workbench is a sequence of calls into the host CAD application.
  A run of a handler is modelled by the list of host calls it makes, in order, together
  with its outcome: the value it returns, or the Python exception that ends it.
  What the host answers (the selection, the sketch's constraints, the geometry attached
  to an element) is an input of the model. The model does no floating-point arithmetic:
  a number of the geometry kernel is carried as the 64-bit pattern of its double.
\<close>

datatype py_error =
    KeyError string
  | AttributeError string
  | IndexError
  | TypeError string
  | IOError
  | CsvError

type_synonym double = "64 word"

record doc_object =
  TypeId :: string
  Name :: string

datatype geometry = NewTangentSegment | NewArc

datatype event =
    Critical string string
  | Print string
  | AddGeometry geometry bool
  | AddConstraint string "int list"
  | DelConstraint int
  | MovePoint int int
  | AddObject string string
  | Recompute
  | SetAlignmentList "doc_object list"
  | SetTemplateList "doc_object list"
  | DialogExec
  | CreateLoftGroup
  | SetText string
  | SetCheckState bool
  | HostCall string

text \<open>
  The direct mutations of the host document: \<open>addGeometry\<close>, \<open>addConstraint\<close>,
  \<open>delConstraint\<close>, \<open>movePoint\<close> and \<open>addObject\<close>.
\<close>

fun is_mutation :: "event \<Rightarrow> bool" where
  "is_mutation (AddGeometry g c) = True"
| "is_mutation (AddConstraint t args) = True"
| "is_mutation (DelConstraint i) = True"
| "is_mutation (MovePoint g p) = True"
| "is_mutation (AddObject t n) = True"
| "is_mutation e = False"

text \<open>
  \<open>recomputed t\<close>: every mutation in the trace \<open>t\<close> has a later \<open>recompute()\<close>.
\<close>

fun recomputed :: "event list \<Rightarrow> bool" where
  "recomputed [] = True"
| "recomputed (e # es) = ((if is_mutation e then Recompute \<in> set es else True) \<and> recomputed es)"

type_synonym 'a run = "event list \<times> (py_error + 'a)"

definition ret :: "'a \<Rightarrow> 'a run" where
  "ret a = ([], Inr a)"

definition raise :: "py_error \<Rightarrow> 'a run" where
  "raise e = ([], Inl e)"

definition emit :: "event \<Rightarrow> unit run" where
  "emit e = ([e], Inr ())"

definition then_do :: "'a run \<Rightarrow> ('a \<Rightarrow> 'b run) \<Rightarrow> 'b run" where
  "then_do m f =
     (case m of
        (t, Inl e) \<Rightarrow> (t, Inl e)
      | (t, Inr a) \<Rightarrow> (case f a of (t', r) \<Rightarrow> (t @ t', r)))"

section \<open>InsertCurve\<close>

subsection \<open>\<open>_notify_error\<close>\<close>

text \<open>
  The message literals of the source continue over line ends with a backslash, so the
  indentation of the continuation line is part of the message.
\<close>

definition notify_message :: "string \<Rightarrow> string" where
  "notify_message error_type =
     (if error_type = ''Selection'' then
        ''Select two adjacent back tangents, two adjacent curves,             or an adjacent back tangent and curve to place curve.''
      else if error_type = ''Attached Geometry'' then
        ''Selected elements have attached arc.''
      else if error_type = ''Invalid Geometry'' then
        ''Selected elements have incorrect geometry.             Select either line segments or arcs.  Line segments must be             construction mode.''
      else if error_type = ''Invalid Constraint'' then
        ''Selected geometry are not properly constrained.''
      else if error_type = ''Not Coincident'' then
        ''Selected geometry do not intersect.''
      else if error_type = ''No Arc'' then
        ''Expected an arc to be selected.''
      else ''UNDEFINED ERROR'')"

definition notify_error :: "string \<Rightarrow> unit run" where
  "notify_error error_type =
     emit (Critical (error_type @ '' Error'') (notify_message error_type))"

definition error_tags :: "string list" where
  "error_tags = [''Selection'', ''Attached Geometry'', ''Invalid Geometry'',
                 ''Invalid Constraint'', ''Not Coincident'', ''No Arc'']"

subsection \<open>\<open>_sort_vectors\<close>\<close>

text \<open>
  \<open>App.Vector\<close> of the host: three doubles. Its method \<open>cross\<close> and the comparison
  \<open>> 0.0\<close> of a double are operations of the host and of the interpreter; where a
  function of the module uses them they are parameters of the model.
\<close>

record vector =
  x :: double
  y :: double
  z :: double

text \<open>
  \<open>py_index xs i\<close> is Python's \<open>xs[i]\<close>: a negative index counts from the end, and an
  index outside the list raises \<open>IndexError\<close>.
\<close>

definition py_index :: "'a list \<Rightarrow> int \<Rightarrow> py_error + 'a" where
  "py_index xs i =
     (if 0 \<le> i \<and> i < int (length xs) then Inr (xs ! nat i)
      else if i < 0 \<and> - int (length xs) \<le> i then Inr (xs ! nat (int (length xs) + i))
      else Inl IndexError)"

definition sort_vectors ::
  "(vector \<Rightarrow> vector \<Rightarrow> vector) \<Rightarrow> (double \<Rightarrow> bool) \<Rightarrow> vector list \<Rightarrow> py_error + vector list" where
  "sort_vectors cross positive vectors =
     (case py_index vectors 0 of
        Inl e \<Rightarrow> Inl e
      | Inr vec0 \<Rightarrow>
          (case py_index vectors 1 of
             Inl e \<Rightarrow> Inl e
           | Inr vec1 \<Rightarrow>
               (if positive (z (cross vec0 vec1)) then Inr [vec1, vec0]
                else Inr [vec0, vec1])))"

subsection \<open>Sketch elements\<close>

text \<open>
  A \<open>Sketcher.Constraint\<close> of the host. \<open>FirstPos\<close> and \<open>SecondPos\<close> are values of the
  host's point-position enumeration (none = 0, start = 1, end = 2, mid = 3), read by
  Python as numbers.
\<close>

record constraint =
  Type :: string
  First :: int
  Second :: int
  FirstPos :: nat
  SecondPos :: nat

datatype py_type = Part_LineSegment | Part_ArcOfCircle | Sketcher_Constraint | Other_Type

text \<open>
  What \<open>get_element()\<close> of a container returns: a line segment with its
  \<open>Construction\<close> flag, an arc of circle, a constraint, or anything else.
\<close>

datatype host_element =
    LineSegment bool
  | ArcOfCircle
  | SketchConstraint constraint
  | OtherGeometry

fun type_of :: "host_element \<Rightarrow> py_type" where
  "type_of (LineSegment c) = Part_LineSegment"
| "type_of ArcOfCircle = Part_ArcOfCircle"
| "type_of (SketchConstraint k) = Sketcher_Constraint"
| "type_of OtherGeometry = Other_Type"

text \<open>
  The element containers of the module \<open>SketchElement\<close>, which is not part of the
  sources at hand: their attributes \<open>index\<close> and \<open>type\<close>, and what their methods
  \<open>get_element()\<close> and \<open>get_points()\<close> return, are data of the model.
\<close>

record sketch_element =
  el_index :: int
  el_type :: py_type
  get_element :: host_element
  get_points :: "vector list"

text \<open>
  The answers of the host and of the absent helper modules during one run of the command.
  Computations of the geometry kernel (intersections, tangents, orthogonals, angles) are
  taken to return normally; their values do not decide what the command does next.
  \<open>python3\<close> says whether the interpreter of the host is Python 3, where a dictionary
  has no method \<open>has_key\<close>.
\<close>

record host =
  python3 :: bool
  gui_selection :: "doc_object list"
  get_selection :: "sketch_element list"
  Constraints :: "constraint list"
  is_coincident :: "sketch_element \<Rightarrow> int \<Rightarrow> bool"
  match_attached_geometry :: "sketch_element \<Rightarrow> sketch_element list"
  match_by_vertex :: "sketch_element \<Rightarrow> vector \<Rightarrow> sketch_element list"
  get_binding_constraint :: "sketch_element \<Rightarrow> int \<Rightarrow> sketch_element"
  intersect2d :: "sketch_element \<Rightarrow> sketch_element \<Rightarrow> vector"
  addGeometry_index :: int
  SketchGeometry :: "int \<Rightarrow> sketch_element"

text \<open>\<open>skel.SketchConstraint(self.sketch, i)\<close>: the container of the sketch's constraint \<open>i\<close>.\<close>

definition SketchConstraint_of :: "host \<Rightarrow> nat \<Rightarrow> sketch_element" where
  "SketchConstraint_of h i =
     \<lparr> el_index = int i, el_type = Sketcher_Constraint,
       get_element = SketchConstraint (Constraints h ! i), get_points = [] \<rparr>"

subsection \<open>The geometry dictionary\<close>

datatype dict_value =
    PyNone
  | Element sketch_element
  | Vector vector
  | Geometry geometry

type_synonym geo_dict = "string \<rightharpoonup> dict_value"

text \<open>\<open>geo_dict[key]\<close> raises \<open>KeyError\<close> on a missing key.\<close>

definition getitem :: "geo_dict \<Rightarrow> string \<Rightarrow> dict_value run" where
  "getitem d key = (case d key of None \<Rightarrow> raise (KeyError key) | Some v \<Rightarrow> ret v)"

text \<open>
  Reading the attribute \<open>attr\<close> of a dictionary value as an element container:
  \<open>None\<close> and the other values have no such attribute.
\<close>

definition attr_of :: "dict_value \<Rightarrow> string \<Rightarrow> sketch_element run" where
  "attr_of v attr = (case v of Element e \<Rightarrow> ret e | _ \<Rightarrow> raise (AttributeError attr))"

definition lift :: "py_error + 'a \<Rightarrow> 'a run" where
  "lift r = ([], r)"

text \<open>\<open>geo_dict.has_key(key)\<close>: a method of Python 2 dictionaries only.\<close>

definition has_key :: "bool \<Rightarrow> geo_dict \<Rightarrow> string \<Rightarrow> bool run" where
  "has_key py3 d key =
     (if py3 then raise (AttributeError ''has_key'') else ret (key \<in> dom d))"

subsection \<open>\<open>_get_constrained_vertex\<close>\<close>

definition get_constrained_vertex :: "sketch_element \<Rightarrow> py_error + int" where
  "get_constrained_vertex constraint =
     (case get_element constraint of
        SketchConstraint k \<Rightarrow>
          (let result = int (FirstPos k);
               result = (if result = 0 then int (SecondPos k) else result)
           in Inr (result - 1))
      | _ \<Rightarrow> Inl (AttributeError ''FirstPos''))"

text \<open>The position the function uses: \<open>FirstPos\<close>, or \<open>SecondPos\<close> when \<open>FirstPos\<close> is 0.\<close>

definition position_used :: "constraint \<Rightarrow> nat" where
  "position_used k = (if FirstPos k = 0 then SecondPos k else FirstPos k)"

subsection \<open>\<open>_validate_selection_geometry\<close>\<close>

text \<open>
  The loop over the selected geometry, with the loop variables \<open>last_type\<close> and
  \<open>is_two_lines\<close>; it returns \<open>valid_geo\<close> and \<open>is_two_lines\<close>. The loop is left at the
  first element that is not valid.
\<close>

fun geometry_loop :: "sketch_element list \<Rightarrow> py_type option \<Rightarrow> bool \<Rightarrow> bool \<times> bool" where
  "geometry_loop [] last_type is_two_lines = (True, is_two_lines)"
| "geometry_loop (geo # rest) last_type is_two_lines =
     (case get_element geo of
        LineSegment construction \<Rightarrow>
          (if construction then geometry_loop rest (Some Part_LineSegment) is_two_lines
           else (False, is_two_lines))
      | ArcOfCircle \<Rightarrow>
          (if last_type \<noteq> Some Part_ArcOfCircle
           then geometry_loop rest (Some Part_ArcOfCircle) False
           else (False, False))
      | _ \<Rightarrow> (False, is_two_lines))"

text \<open>The loop over the geometry attached to the first tangent.\<close>

fun attached_loop :: "sketch_element list \<Rightarrow> unit run" where
  "attached_loop [] = ret ()"
| "attached_loop (item # rest) =
     (if el_type item = Part_ArcOfCircle then notify_error ''Attached Geometry''
      else attached_loop rest)"

definition validate_selection_geometry :: "host \<Rightarrow> sketch_element list \<Rightarrow> bool run" where
  "validate_selection_geometry h selection =
     (let sel_count = length selection in
      if sel_count = 0 then ret True
      else if sel_count \<noteq> 2 then then_do (notify_error ''Selection'') (\<lambda>_. ret False)
      else
        (case geometry_loop selection None True of
           (valid_geo, is_two_lines) \<Rightarrow>
             if valid_geo \<and> is_two_lines then
               (if is_coincident h (selection ! 0) (el_index (selection ! 1)) then
                  then_do (attached_loop (match_attached_geometry h (selection ! 0)))
                    (\<lambda>_. ret True)
                else ret valid_geo)
             else ret valid_geo))"

subsection \<open>\<open>_validate_selection_constraints\<close> and \<open>_validate_selection_bindings\<close>\<close>

definition is_valid_type :: "bool \<Rightarrow> constraint \<Rightarrow> bool" where
  "is_valid_type two_back_tangents c =
     (if Type c = ''Tangent'' \<and> \<not> two_back_tangents then True
      else Type c \<in> set [''Coincident'', ''PointOnObject''] \<and> two_back_tangents)"

definition validate_selection_constraints ::
  "host \<Rightarrow> sketch_element list \<Rightarrow> sketch_element list run" where
  "validate_selection_constraints h selection =
     then_do (lift (py_index selection 0)) (\<lambda>s0.
     then_do (if type_of (get_element s0) = Part_LineSegment
              then then_do (lift (py_index selection 1))
                     (\<lambda>s1. ret (type_of (get_element s1) = Part_LineSegment))
              else ret False) (\<lambda>two_back_tangents.
     ret (map (SketchConstraint_of h)
            (filter (\<lambda>i. is_valid_type two_back_tangents (Constraints h ! i))
               [0 ..< length (Constraints h)]))))"

text \<open>
  The inner loop of \<open>_validate_selection_bindings\<close>: \<open>are_connected\<close> after the loop
  over the selection, which is left at the first element the constraint does not name.
\<close>

fun connected_loop :: "constraint \<Rightarrow> sketch_element list \<Rightarrow> bool \<Rightarrow> bool" where
  "connected_loop k [] are_connected = are_connected"
| "connected_loop k (sel # rest) are_connected =
     (if First k = el_index sel \<or> Second k = el_index sel then connected_loop k rest True
      else False)"

fun validate_selection_bindings ::
  "sketch_element list \<Rightarrow> sketch_element list \<Rightarrow> sketch_element list run" where
  "validate_selection_bindings selection [] = ret []"
| "validate_selection_bindings selection (constraint # rest) =
     (case selection of
        [] \<Rightarrow> validate_selection_bindings selection rest
      | _ # _ \<Rightarrow>
          (case get_element constraint of
             SketchConstraint k \<Rightarrow>
               (if connected_loop k selection False then ret [constraint]
                else validate_selection_bindings selection rest)
           | _ \<Rightarrow> raise (AttributeError ''First'')))"

subsection \<open>\<open>_validate_selection\<close>\<close>

definition validate_selection :: "host \<Rightarrow> sketch_element list option run" where
  "validate_selection h =
     (let selection = get_selection h in
      then_do (validate_selection_geometry h selection) (\<lambda>valid.
      if \<not> valid then then_do (notify_error ''Invalid Geometry'') (\<lambda>_. ret None)
      else
        then_do (validate_selection_constraints h selection) (\<lambda>constraint_list.
        if constraint_list = [] then
          then_do (notify_error ''Invalid Constraint'') (\<lambda>_. ret None)
        else
          then_do (validate_selection_bindings selection constraint_list) (\<lambda>constraint_list.
          if constraint_list = [] then
            then_do (notify_error ''Invalid Constraint'') (\<lambda>_. ret None)
          else ret (Some (selection @ constraint_list))))))"

subsection \<open>\<open>_get_tangents\<close>\<close>

text \<open>The loop that sorts the selected elements into the dictionary.\<close>

fun sort_selection :: "sketch_element list \<Rightarrow> geo_dict \<Rightarrow> geo_dict run" where
  "sort_selection [] result = ret result"
| "sort_selection (sel # rest) result =
     (if type_of (get_element sel) = Part_ArcOfCircle
      then sort_selection rest (result(''arc'' \<mapsto> Element sel))
      else
        then_do (getitem result ''start_tangent'') (\<lambda>start.
        if start = PyNone then sort_selection rest (result(''start_tangent'' \<mapsto> Element sel))
        else sort_selection rest (result(''end_tangent'' \<mapsto> Element sel))))"

text \<open>
  The loop over the geometry attached to the arc: the first line segment whose index
  differs from the start tangent's becomes the end tangent.
\<close>

fun find_end_tangent :: "sketch_element list \<Rightarrow> geo_dict \<Rightarrow> geo_dict run" where
  "find_end_tangent [] result = ret result"
| "find_end_tangent (geo # rest) result =
     then_do (getitem result ''start_tangent'') (\<lambda>start.
     then_do (attr_of start ''index'') (\<lambda>start_tangent.
     if el_index geo \<noteq> el_index start_tangent \<and> el_type geo = Part_LineSegment
     then ret (result(''end_tangent'' \<mapsto> Element geo))
     else find_end_tangent rest result))"

definition get_tangents :: "host \<Rightarrow> sketch_element list \<Rightarrow> geo_dict run" where
  "get_tangents h selection =
     then_do (sort_selection selection
                [''arc'' \<mapsto> PyNone, ''start_tangent'' \<mapsto> PyNone,
                 ''end_tangent'' \<mapsto> PyNone, ''constraint'' \<mapsto> PyNone]) (\<lambda>result.
     then_do (getitem result ''arc'') (\<lambda>arc.
     if arc = PyNone then ret result
     else
       then_do (attr_of arc ''match_attached_geometry'') (\<lambda>arc.
       find_end_tangent (match_attached_geometry h arc) result)))"

subsection \<open>\<open>_delete_constraints\<close>\<close>

fun delete_loop :: "sketch_element list \<Rightarrow> geo_dict \<Rightarrow> geo_dict run" where
  "delete_loop [] geo_dict = ret geo_dict"
| "delete_loop (a # rest) geo_dict =
     (let geo_dict = (if el_type a \<noteq> Sketcher_Constraint
                      then geo_dict(''adjacent'' \<mapsto> Element a) else geo_dict) in
      then_do (emit (DelConstraint (el_index a))) (\<lambda>_. delete_loop rest geo_dict))"

definition delete_constraints :: "host \<Rightarrow> geo_dict \<Rightarrow> int \<Rightarrow> geo_dict run" where
  "delete_constraints h geo_dict vertex_index =
     then_do (getitem geo_dict ''arc'') (\<lambda>arc.
     then_do (attr_of arc ''get_points'') (\<lambda>arc.
     then_do (lift (py_index (get_points arc) vertex_index)) (\<lambda>arc_vertex.
     then_do (delete_loop (match_by_vertex h arc arc_vertex) geo_dict) (\<lambda>geo_dict.
     then_do (emit Recompute) (\<lambda>_. ret geo_dict)))))"

subsection \<open>\<open>_adjust_curve\<close>\<close>

text \<open>
  The adjustment factor enters only the host's computation of the point the vertex is
  moved to.
\<close>

definition adjust_curve :: "host \<Rightarrow> geo_dict \<Rightarrow> int \<Rightarrow> double \<Rightarrow> geo_dict run" where
  "adjust_curve h geo_dict vertex_index factor =
     then_do (getitem geo_dict ''arc'') (\<lambda>arc.
     then_do (attr_of arc ''as_arc2d'') (\<lambda>arc.
     then_do (emit (MovePoint (el_index arc) (vertex_index + 1))) (\<lambda>_.
     then_do (emit Recompute) (\<lambda>_. ret geo_dict))))"

subsection \<open>\<open>_generate_new_back_tangent\<close>\<close>

definition generate_new_back_tangent :: "host \<Rightarrow> geo_dict \<Rightarrow> int \<Rightarrow> sketch_element run" where
  "generate_new_back_tangent h geo_dict vertex_index =
     then_do (getitem geo_dict ''arc'') (\<lambda>arc.
     then_do (getitem geo_dict ''start_tangent'') (\<lambda>start_tangent.
     then_do (getitem geo_dict ''end_tangent'') (\<lambda>end_tangent.
     then_do (attr_of arc ''as_arc2d'') (\<lambda>arc.
     then_do (lift (py_index (get_points arc) vertex_index)) (\<lambda>arc_point.
     then_do (attr_of start_tangent ''as_line2d'') (\<lambda>start_tangent.
     then_do (attr_of end_tangent ''as_line2d'') (\<lambda>end_tangent.
     then_do (emit (AddGeometry NewTangentSegment True)) (\<lambda>_.
     let new_tan_idx = addGeometry_index h in
     then_do (emit Recompute) (\<lambda>_.
     then_do (emit (AddConstraint ''PointOnObject''
                      [new_tan_idx, 1, el_index start_tangent])) (\<lambda>_.
     then_do (emit (AddConstraint ''PointOnObject''
                      [new_tan_idx, 2, el_index end_tangent])) (\<lambda>_.
     then_do (emit Recompute) (\<lambda>_.
     then_do (emit (AddConstraint ''Tangent''
                      [el_index arc, vertex_index + 1, new_tan_idx])) (\<lambda>_.
     then_do (emit Recompute) (\<lambda>_.
     ret (SketchGeometry h new_tan_idx)))))))))))))))"

subsection \<open>\<open>_get_line_segments\<close> and \<open>_get_arc_parameters\<close>\<close>

text \<open>
  \<open>_get_line_segments\<close> returns a list of two lines, or \<open>None\<close> after the "No Arc"
  dialog; the model returns whether a list was returned, and the dictionary, to which
  the function adds the key \<open>p_i\<close> when the tangents are not coincident.
\<close>

definition get_line_segments :: "host \<Rightarrow> geo_dict \<Rightarrow> vector \<Rightarrow> (bool \<times> geo_dict) run" where
  "get_line_segments h geo_dict arc_vertex =
     then_do (getitem geo_dict ''start_tangent'') (\<lambda>t0.
     then_do (getitem geo_dict ''end_tangent'') (\<lambda>t1.
     then_do (attr_of t0 ''is_coincident'') (\<lambda>t0.
     then_do (attr_of t1 ''index'') (\<lambda>t1.
     if is_coincident h t0 (el_index t1) then ret (True, geo_dict)
     else
       then_do (has_key (python3 h) geo_dict ''arc'') (\<lambda>has_arc.
       if \<not> has_arc then
         then_do (notify_error ''No Arc'') (\<lambda>_. ret (False, geo_dict))
       else
         (let geo_dict = geo_dict(''p_i'' \<mapsto> Vector (intersect2d h t0 t1)) in
          then_do (getitem geo_dict ''arc'') (\<lambda>arc.
          then_do (attr_of arc ''get_element'') (\<lambda>arc.
          ret (True, geo_dict)))))))))"

text \<open>
  \<open>_get_arc_parameters\<close>: the parameters of the new arc are values of the geometry
  kernel; the model returns the dictionary, which \<open>_get_line_segments\<close> may have extended.
\<close>

definition get_arc_parameters :: "host \<Rightarrow> geo_dict \<Rightarrow> int \<Rightarrow> geo_dict run" where
  "get_arc_parameters h geo_dict vertex_index =
     then_do (getitem geo_dict ''arc'') (\<lambda>arc.
     then_do (attr_of arc ''get_points'') (\<lambda>arc.
     then_do (lift (py_index (get_points arc) vertex_index)) (\<lambda>arc_vertex.
     then_do (emit (HostCall ''print arc vertex'')) (\<lambda>_.
     then_do (get_line_segments h geo_dict arc_vertex) (\<lambda>(tangents, geo_dict).
     if \<not> tangents then raise (TypeError ''NoneType is not subscriptable'')
     else
       then_do (getitem geo_dict ''p_i'') (\<lambda>p_i. ret geo_dict))))))"

subsection \<open>\<open>_reconstrain\<close>\<close>

text \<open>
  After reading \<open>geo_dict["new_arc"]\<close> the function subscripts the bound method
  \<open>arc.get_points\<close> without calling it, which raises \<open>TypeError\<close>.
\<close>

definition reconstrain :: "bool \<Rightarrow> geo_dict \<Rightarrow> int \<Rightarrow> unit run" where
  "reconstrain py3 geo_dict vertex_index =
     then_do (has_key py3 geo_dict ''arc'') (\<lambda>has_arc.
     if has_arc then
       then_do (getitem geo_dict ''arc'') (\<lambda>arc.
       if vertex_index = - 1 then ret ()
       else
         then_do (getitem geo_dict ''new_arc'') (\<lambda>new_arc.
         then_do (attr_of arc ''get_points'') (\<lambda>arc.
         raise (TypeError ''method is not subscriptable''))))
     else ret ())"

subsection \<open>\<open>Activated\<close>\<close>

text \<open>
  The branch of \<open>Activated\<close> for a selected arc. It returns \<open>None\<close> where the command
  returns, and the dictionary with the vertex index otherwise.
\<close>

definition arc_branch :: "host \<Rightarrow> geo_dict \<Rightarrow> (geo_dict \<times> int) option run" where
  "arc_branch h geo_dict =
     then_do (getitem geo_dict ''end_tangent'') (\<lambda>end_tangent.
     if end_tangent = PyNone then ret None
     else
       then_do (getitem geo_dict ''arc'') (\<lambda>arc.
       then_do (attr_of arc ''get_binding_constraint'') (\<lambda>arc.
       then_do (getitem geo_dict ''start_tangent'') (\<lambda>start_tangent.
       then_do (attr_of start_tangent ''index'') (\<lambda>start_tangent.
       let constraint = get_binding_constraint h arc (el_index start_tangent);
           geo_dict = geo_dict(''constraint'' \<mapsto> Element constraint) in
       then_do (lift (get_constrained_vertex constraint)) (\<lambda>vertex_index.
       if vertex_index < 0 then
         then_do (notify_error ''Invalid Constraint'') (\<lambda>_. ret None)
       else
         then_do (delete_constraints h geo_dict vertex_index) (\<lambda>geo_dict.
         then_do (adjust_curve h geo_dict vertex_index 0x3FD0000000000000) (\<lambda>geo_dict.
         then_do (generate_new_back_tangent h geo_dict vertex_index) (\<lambda>new_tangent.
         let geo_dict = geo_dict(''new_tangent'' \<mapsto> Element new_tangent);
             geo_dict = geo_dict(''end_tangent'' \<mapsto> Element new_tangent) in
         ret (Some (geo_dict, vertex_index)))))))))))"

definition Activated :: "host \<Rightarrow> unit run" where
  "Activated h =
     (if gui_selection h = [] then notify_error ''Selection''
      else
        then_do (validate_selection h) (\<lambda>selection.
        case selection of
          None \<Rightarrow> ret ()
        | Some selection \<Rightarrow>
            then_do (get_tangents h selection) (\<lambda>geo_dict.
            then_do (getitem geo_dict ''arc'') (\<lambda>arc.
            then_do (if arc \<noteq> PyNone then arc_branch h geo_dict
                     else ret (Some (geo_dict, - 1))) (\<lambda>branch.
            case branch of
              None \<Rightarrow> ret ()
            | Some (geo_dict, vertex_index) \<Rightarrow>
                then_do (get_arc_parameters h geo_dict vertex_index) (\<lambda>geo_dict.
                then_do (emit (AddGeometry NewArc False)) (\<lambda>_.
                then_do (emit Recompute) (\<lambda>_.
                let geo_dict = geo_dict(''new arc'' \<mapsto> Geometry NewArc) in
                reconstrain (python3 h) geo_dict vertex_index))))))))"

section \<open>GenerateLoft\<close>

subsection \<open>\<open>_validate_tree\<close>\<close>






subsection \<open>\<open>GenerateLoft.Activated\<close>\<close>





section \<open>ImportTask\<close>

text \<open>
  \<open>examine_file\<close> reads the path from the form, and the files that can be opened are a
  map from paths to contents. The CSV sniffer of the Python library is a pair of
  functions that may fail: \<open>sniff\<close> gives the delimiter of the dialect, \<open>has_header\<close>
  says whether the sample starts with a header row. Setting the delimiter field and the
  headers checkbox are the host calls \<open>SetText\<close> and \<open>SetCheckState\<close>.

  A failing \<open>open\<close> raises \<open>OSError\<close> in Python 3, which the function catches, and
  \<open>IOError\<close> in Python 2, which it does not.
  The statement \<open>first_bytes = stream(1024)\<close> calls the file object itself, which
  is not callable: it raises \<open>TypeError\<close>. The last statement gives the delimiter to
  \<open>csv.reader\<close> where the name of a dialect is expected, which raises the error of the
  \<open>csv\<close> module.
\<close>

definition call_stream :: "string \<Rightarrow> nat \<Rightarrow> string run" where
  "call_stream content n = raise (TypeError ''file object is not callable'')"

definition examine_file ::
  "bool \<Rightarrow> (string \<rightharpoonup> string) \<Rightarrow> (string \<Rightarrow> py_error + string) \<Rightarrow> (string \<Rightarrow> py_error + bool)
    \<Rightarrow> string \<Rightarrow> unit run" where
  "examine_file py3 files sniff has_header file_path =
     (case files file_path of
        None \<Rightarrow>
          (if py3 then emit (Critical ''Unable to open file '' file_path) else raise IOError)
      | Some content \<Rightarrow>
          then_do (call_stream content 1024) (\<lambda>first_bytes.
          then_do (lift (sniff first_bytes)) (\<lambda>delimiter.
          then_do (emit (SetText delimiter)) (\<lambda>_.
          then_do (lift (has_header first_bytes)) (\<lambda>header.
          then_do (emit (SetCheckState header)) (\<lambda>_.
          raise CsvError))))))"

section \<open>Box culvert tools\<close>

text \<open>
  A selected object as \<open>add_1_cell_box\<close> looks at it: whether it has a \<open>Proxy\<close>, whether
  the proxy has a \<open>Type\<close> and which, and its \<open>Group\<close>.
\<close>

datatype proxy = NoProxy | ProxyWithoutType | ProxyOfType string

record selected_object =
  Proxy :: proxy
  Group :: "doc_object list"

definition add_1_cell_box :: "selected_object list \<Rightarrow> doc_object option run" where
  "add_1_cell_box sel =
     then_do (emit (AddObject ''App::DocumentObjectGroupPython'' ''BoxCulvert1Cell'')) (\<lambda>_.
     let obj = \<lparr> TypeId = ''App::DocumentObjectGroupPython'', Name = ''BoxCulvert1Cell'' \<rparr> in
     then_do (emit (HostCall ''Label'')) (\<lambda>_.
     then_do (emit (HostCall ''BoxCulvert'')) (\<lambda>_.
     case sel of
       [] \<Rightarrow> then_do (emit (Print ''No alignment selected'')) (\<lambda>_. ret None)
     | first # _ \<Rightarrow>
         then_do (if Proxy first = ProxyOfType ''Alignment''
                  then then_do (lift (py_index (Group first) 0)) (\<lambda>g. ret (Some g))
                  else ret None) (\<lambda>valid_sel.
         case valid_sel of
           None \<Rightarrow> then_do (emit (Print ''Invalid selection for sweep'')) (\<lambda>_. ret None)
         | Some path \<Rightarrow>
             then_do (emit (HostCall ''SweepPath'')) (\<lambda>_.
             then_do (emit (HostCall ''attach_sketch'')) (\<lambda>_.
             then_do (emit (HostCall ''orient_profile'')) (\<lambda>_.
             then_do (emit Recompute) (\<lambda>_.
             then_do (emit (HostCall ''sweep_sketch'')) (\<lambda>_.
             ret (Some obj))))))))))"

text \<open>
  \<open>get_body\<close>, \<open>get_parameters\<close> and \<open>add_headwall\<close>. Of a selected object the functions
  use its \<open>getParentGeoFeatureGroup()\<close>, of that body its \<open>TypeId\<close> and its
  \<open>getParentGroup()\<close>, and of that group the labels of the objects in its \<open>Group\<close>.
  \<open>EndWall.validate_selection()\<close> belongs to the module \<open>EndWall\<close> that the file
  imports: whether it returns a geometry is an input.
\<close>

record body_object =
  body_TypeId :: string
  getParentGroup :: "string list option"

record headwall_host =
  EndWall_validate_selection :: bool
  getParentGeoFeatureGroup :: "body_object option list"

text \<open>\<open>contains p s\<close> is Python's \<open>p in s\<close> for two strings.\<close>

fun starts_with :: "string \<Rightarrow> string \<Rightarrow> bool" where
  "starts_with [] s = True"
| "starts_with (c # p) [] = False"
| "starts_with (c # p) (c' # s) = (c = c' \<and> starts_with p s)"

fun contains :: "string \<Rightarrow> string \<Rightarrow> bool" where
  "contains p [] = (p = [])"
| "contains p (c # s) = (starts_with p (c # s) \<or> contains p s)"

definition get_body :: "headwall_host \<Rightarrow> body_object option run" where
  "get_body hh =
     then_do (lift (py_index (getParentGeoFeatureGroup hh) 0)) (\<lambda>body.
     case body of
       None \<Rightarrow> raise (AttributeError ''TypeId'')
     | Some body \<Rightarrow>
         (if body_TypeId body \<noteq> ''PartDesign::Body''
          then then_do (emit (Print ''invalid object hierarchy.  Body not found.''))
                 (\<lambda>_. ret None)
          else ret (Some body)))"

text \<open>The loop of \<open>get_parameters\<close>: the last child whose label contains "Parameters".\<close>

fun parameters_loop :: "string list \<Rightarrow> string option \<Rightarrow> string option" where
  "parameters_loop [] parameters = parameters"
| "parameters_loop (child # rest) parameters =
     parameters_loop rest (if contains ''Parameters'' child then Some child else parameters)"

definition get_parameters :: "string list option \<Rightarrow> string option run" where
  "get_parameters parent_obj =
     (case parent_obj of
        None \<Rightarrow> raise (AttributeError ''Group'')
      | Some group_labels \<Rightarrow>
          (case parameters_loop group_labels None of
             None \<Rightarrow> then_do (emit (Print ''Unable to find Parameters object''))
                       (\<lambda>_. ret None)
           | Some parameters \<Rightarrow> ret (Some parameters)))"

definition add_headwall :: "headwall_host \<Rightarrow> unit run" where
  "add_headwall hh =
     then_do (emit (Print ''Unimplemented'')) (\<lambda>_.
     then_do (emit (HostCall ''EndWall.validate_selection'')) (\<lambda>_.
     if \<not> EndWall_validate_selection hh then ret ()
     else
       then_do (emit (AddObject ''App::DocumentObjectGroupPython'' ''Headwall'')) (\<lambda>_.
       then_do (emit (HostCall ''Label'')) (\<lambda>_.
       then_do (get_body hh) (\<lambda>body.
       case body of
         None \<Rightarrow> raise (AttributeError ''getParentGroup'')
       | Some body \<Rightarrow>
           then_do (get_parameters (getParentGroup body)) (\<lambda>parameters.
           case parameters of
             None \<Rightarrow> ret ()
           | Some parameters \<Rightarrow>
               then_do (emit (HostCall ''EndWall'')) (\<lambda>_.
               then_do (emit (HostCall ''attach_sketch'')) (\<lambda>_.
               then_do (emit (HostCall ''orient_profile'')) (\<lambda>_.
               emit Recompute)))))))))"

section \<open>Traces and example inputs\<close>

text \<open>The mutations of the host document that a run makes.\<close>

definition mutations :: "'a run \<Rightarrow> event list" where
  "mutations m = filter is_mutation (fst m)"

text \<open>
  A sketch with an arc (geometry 0) bound by a tangent constraint to a construction
  line (geometry 1); a second construction line (geometry 2) is attached to the arc.
  The user has selected the arc and the first line. \<open>pos\<close> is the \<open>FirstPos\<close> of the
  tangent constraint. The arc runs from (0, 0) to (1, 1), the lines from (0, 0) to (2, 0).
  The interpreter is Python 2 in \<open>example_host\<close> and Python 3 in \<open>example_host3\<close>.
\<close>

definition arc_el :: sketch_element where
  "arc_el = \<lparr> el_index = 0, el_type = Part_ArcOfCircle, get_element = ArcOfCircle,
              get_points = [\<lparr> x = 0, y = 0, z = 0 \<rparr>,
                            \<lparr> x = 0x3FF0000000000000, y = 0x3FF0000000000000, z = 0 \<rparr>] \<rparr>"

definition line_el :: "int \<Rightarrow> sketch_element" where
  "line_el i = \<lparr> el_index = i, el_type = Part_LineSegment, get_element = LineSegment True,
                 get_points = [\<lparr> x = 0, y = 0, z = 0 \<rparr>,
                               \<lparr> x = 0x4000000000000000, y = 0, z = 0 \<rparr>] \<rparr>"

definition tangent_constraint :: "nat \<Rightarrow> constraint" where
  "tangent_constraint pos =
     \<lparr> Type = ''Tangent'', First = 0, Second = 1, FirstPos = pos, SecondPos = 0 \<rparr>"

definition constraint_el :: "nat \<Rightarrow> sketch_element" where
  "constraint_el pos =
     \<lparr> el_index = 0, el_type = Sketcher_Constraint,
       get_element = SketchConstraint (tangent_constraint pos), get_points = [] \<rparr>"

definition example_host :: "nat \<Rightarrow> host" where
  "example_host pos =
     \<lparr> python3 = False,
       gui_selection = [\<lparr> TypeId = ''Sketcher::SketchObject'', Name = ''Sketch'' \<rparr>],
       get_selection = [arc_el, line_el 1],
       Constraints = [tangent_constraint pos],
       is_coincident = (\<lambda>e i. False),
       match_attached_geometry = (\<lambda>e. [line_el 1, line_el 2]),
       match_by_vertex = (\<lambda>e v. [constraint_el pos]),
       get_binding_constraint = (\<lambda>e i. constraint_el pos),
       intersect2d = (\<lambda>a b. \<lparr> x = 0, y = 0, z = 0 \<rparr>),
       addGeometry_index = 3,
       SketchGeometry = line_el \<rparr>"

definition example_host3 :: "nat \<Rightarrow> host" where
  "example_host3 pos = (example_host pos) \<lparr> python3 := True \<rparr>"

section \<open>Properties\<close>

subsection \<open>Runs\<close>

lemmas run_defs = then_do_def ret_def raise_def emit_def lift_def getitem_def attr_of_def
  notify_error_def notify_message_def py_index_def

lemmas example_defs = example_host_def arc_el_def line_el_def tangent_constraint_def
  constraint_el_def

lemmas InsertCurve_defs = Activated_def arc_branch_def reconstrain_def get_arc_parameters_def
  get_line_segments_def generate_new_back_tangent_def adjust_curve_def delete_constraints_def
  get_tangents_def get_constrained_vertex_def validate_selection_def
  validate_selection_geometry_def validate_selection_constraints_def is_valid_type_def
  SketchConstraint_of_def has_key_def

lemma fst_then_do:
  "fst (then_do m f) = fst m @ (case snd m of Inl e \<Rightarrow> [] | Inr a \<Rightarrow> fst (f a))"
  by (cases m; cases "snd m") (auto simp: then_do_def split: prod.splits)

lemma snd_then_do:
  "snd (then_do m f) = (case snd m of Inl e \<Rightarrow> Inl e | Inr a \<Rightarrow> snd (f a))"
  by (cases m; cases "snd m") (auto simp: then_do_def split: prod.splits)

lemma mutations_then_do:
  "mutations m = [] \<Longrightarrow> (\<And>a. mutations (f a) = []) \<Longrightarrow> mutations (then_do m f) = []"
  by (simp add: mutations_def fst_then_do split: sum.splits)

lemma mutations_basic [simp]:
  "mutations (ret a) = []" "mutations (raise e) = []" "mutations (lift r) = []"
  "mutations (notify_error tag) = []" "mutations (getitem d key) = []"
  "mutations (attr_of v attr) = []"
  by (auto simp: mutations_def ret_def raise_def lift_def notify_error_def emit_def
      getitem_def attr_of_def split: option.splits dict_value.splits)

lemma then_do_no_events:
  "fst m = [] \<Longrightarrow> (\<And>a. fst (f a) = []) \<Longrightarrow> fst (then_do m f) = []"
  by (simp add: fst_then_do split: sum.splits)

lemma no_events_basic [simp]:
  "fst (ret a) = []" "fst (raise e) = []" "fst (lift r) = []" "fst (getitem d key) = []"
  "fst (attr_of v attr) = []"
  by (auto simp: ret_def raise_def lift_def getitem_def attr_of_def
      split: option.splits dict_value.splits)

subsection \<open>Selection validation of InsertCurve\<close>

lemma attached_loop_returns: "\<exists>t. attached_loop items = (t, Inr ())"
  by (induction items) (auto simp: ret_def notify_error_def emit_def)

lemma mutations_attached_loop [simp]: "mutations (attached_loop items) = []"
  by (induction items) simp_all

lemma mutations_validate_selection_geometry [simp]:
  "mutations (validate_selection_geometry h selection) = []"
  by (auto simp: validate_selection_geometry_def Let_def intro!: mutations_then_do
      split: prod.splits)

lemma mutations_validate_selection_constraints [simp]:
  "mutations (validate_selection_constraints h selection) = []"
  by (auto simp: validate_selection_constraints_def intro!: mutations_then_do)

lemma mutations_validate_selection_bindings [simp]:
  "mutations (validate_selection_bindings selection constraints) = []"
  by (induction constraints) (auto split: list.splits host_element.splits)

lemma mutations_validate_selection [simp]: "mutations (validate_selection h) = []"
  by (auto simp: validate_selection_def Let_def intro!: mutations_then_do)

lemma sort_selection_no_events [simp]: "fst (sort_selection selection result) = []"
  by (induction selection arbitrary: result) (auto intro!: then_do_no_events)

lemma find_end_tangent_no_events [simp]: "fst (find_end_tangent attached result) = []"
  by (induction attached) (auto intro!: then_do_no_events)

lemma get_tangents_no_events [simp]: "fst (get_tangents h selection) = []"
  by (auto simp: get_tangents_def intro!: then_do_no_events)

text \<open>
  C3: \<open>_validate_selection_geometry\<close> returns \<open>True\<close> if and only if the selection is
  empty, or it has exactly two elements, each a line segment in construction mode or an
  arc of circle, and not both arcs; for every other selection it returns \<open>False\<close>.
\<close>

theorem validate_selection_geometry_result:
  "snd (validate_selection_geometry h selection) =
     Inr (selection = []
          \<or> (\<exists>a b. selection = [a, b]
                \<and> (get_element a = LineSegment True \<or> get_element a = ArcOfCircle)
                \<and> (get_element b = LineSegment True \<or> get_element b = ArcOfCircle)
                \<and> \<not> (get_element a = ArcOfCircle \<and> get_element b = ArcOfCircle)))"
proof (cases selection)
  case Nil
  then show ?thesis by (simp add: validate_selection_geometry_def ret_def)
next
  case (Cons a rest)
  note outer = Cons
  show ?thesis
  proof (cases rest)
    case Nil
    then show ?thesis using outer
      by (simp add: validate_selection_geometry_def ret_def then_do_def notify_error_def emit_def)
  next
    case (Cons b rest')
    note inner = Cons
    show ?thesis
    proof (cases rest')
      case (Cons c rest'')
      then show ?thesis using outer inner
        by (simp add: validate_selection_geometry_def ret_def then_do_def notify_error_def emit_def)
    next
      case Nil
      obtain t where t: "attached_loop (match_attached_geometry h a) = (t, Inr ())"
        using attached_loop_returns by blast
      have sel: "selection = [a, b]" using outer inner Nil by simp
      show ?thesis
        unfolding sel
        by (cases "get_element a"; cases "get_element b")
           (auto simp: validate_selection_geometry_def ret_def then_do_def t)
    qed
  qed
qed

subsection \<open>The constrained vertex\<close>

lemma Activated_rejects_unbound_vertex:
  assumes "gui_selection h \<noteq> []"
    and "validate_selection h = (t, Inr (Some selection))"
    and "get_tangents h selection = (t', Inr gd)"
    and "gd ''arc'' = Some (Element a)"
    and "gd ''start_tangent'' = Some (Element s)"
    and "gd ''end_tangent'' = Some (Element e)"
    and "get_constrained_vertex (get_binding_constraint h a (el_index s)) = Inr v"
    and "v < 0"
  shows "Activated h =
           (t @ t' @ [Critical ''Invalid Constraint Error''
                       ''Selected geometry are not properly constrained.''], Inr ())"
  using assms
  by (simp add: Activated_def arc_branch_def run_defs)

text \<open>
  C10: for every constraint container, \<open>_get_constrained_vertex\<close> returns the constraint's
  \<open>FirstPos\<close> minus 1 when \<open>FirstPos\<close> is not 0, and \<open>SecondPos\<close> minus 1 otherwise; the
  result is negative exactly when the position used is 0; and when \<open>Activated\<close> gets such
  a result for the binding constraint of the selected arc, it shows the
  "Invalid Constraint" dialog and returns, having made no mutation of the document.
\<close>

theorem get_constrained_vertex_index:
  assumes "get_element c = SketchConstraint k"
  shows "get_constrained_vertex c =
           Inr (if FirstPos k \<noteq> 0 then int (FirstPos k) - 1 else int (SecondPos k) - 1)
         \<and> ((\<exists>v. get_constrained_vertex c = Inr v \<and> v < 0) \<longleftrightarrow> position_used k = 0)
         \<and> (position_used k = 0 \<and> gui_selection h \<noteq> []
              \<and> validate_selection h = (t, Inr (Some selection))
              \<and> get_tangents h selection = (t', Inr gd)
              \<and> gd ''arc'' = Some (Element a)
              \<and> gd ''start_tangent'' = Some (Element s)
              \<and> gd ''end_tangent'' = Some (Element e)
              \<and> get_binding_constraint h a (el_index s) = c
            \<longrightarrow> Activated h =
                  (t @ t' @ [Critical ''Invalid Constraint Error''
                              ''Selected geometry are not properly constrained.''], Inr ())
                \<and> mutations (Activated h) = [])"
proof -
  have r: "get_constrained_vertex c =
           Inr (if FirstPos k \<noteq> 0 then int (FirstPos k) - 1 else int (SecondPos k) - 1)"
    using assms by (simp add: get_constrained_vertex_def Let_def)
  have n: "(\<exists>v. get_constrained_vertex c = Inr v \<and> v < 0) \<longleftrightarrow> position_used k = 0"
    unfolding r by (auto simp: position_used_def)
  have m: "Activated h =
             (t @ t' @ [Critical ''Invalid Constraint Error''
                         ''Selected geometry are not properly constrained.''], Inr ())
           \<and> mutations (Activated h) = []"
    if reach: "position_used k = 0 \<and> gui_selection h \<noteq> []
              \<and> validate_selection h = (t, Inr (Some selection))
              \<and> get_tangents h selection = (t', Inr gd)
              \<and> gd ''arc'' = Some (Element a)
              \<and> gd ''start_tangent'' = Some (Element s)
              \<and> gd ''end_tangent'' = Some (Element e)
              \<and> get_binding_constraint h a (el_index s) = c"
  proof -
    have "\<exists>v. get_constrained_vertex c = Inr v \<and> v < 0"
      using n reach by simp
    then obtain v where v: "get_constrained_vertex c = Inr v" "v < 0"
      by blast
    have run: "Activated h =
             (t @ t' @ [Critical ''Invalid Constraint Error''
                         ''Selected geometry are not properly constrained.''], Inr ())"
      by (rule Activated_rejects_unbound_vertex [of h t selection t' gd a s e v])
         (use reach v in simp_all)
    have "mutations (validate_selection h) = []" by simp
    then have t: "filter is_mutation t = []" using reach by (simp add: mutations_def)
    have "fst (get_tangents h selection) = []" by simp
    then have t': "t' = []" using reach by simp
    show ?thesis using run t t' by (simp add: mutations_def)
  qed
  show ?thesis using r n m by blast
qed

theorem get_constrained_vertex_index_witness:
  "get_element (constraint_el 0) = SketchConstraint (tangent_constraint 0)
   \<and> get_constrained_vertex (constraint_el 0) = Inr (- 1)
   \<and> position_used (tangent_constraint 0) = 0
   \<and> Activated (example_host 0) =
       ([Critical ''Invalid Constraint Error''
           ''Selected geometry are not properly constrained.''], Inr ())
   \<and> mutations (Activated (example_host 0)) = []"
proof -
  have c: "get_element (constraint_el 0) = SketchConstraint (tangent_constraint 0)"
    by (simp add: constraint_el_def)
  have p: "position_used (tangent_constraint 0) = 0"
    by (simp add: position_used_def tangent_constraint_def)
  have sel: "validate_selection (example_host 0) =
               ([], Inr (Some [arc_el, line_el 1, constraint_el 0]))"
    by (simp add: InsertCurve_defs run_defs example_defs)
  have "get_tangents (example_host 0) [arc_el, line_el 1, constraint_el 0] =
               ([], Inr ([''arc'' \<mapsto> PyNone, ''start_tangent'' \<mapsto> PyNone,
                   ''end_tangent'' \<mapsto> PyNone, ''constraint'' \<mapsto> PyNone,
                   ''arc'' \<mapsto> Element arc_el, ''start_tangent'' \<mapsto> Element (line_el 1),
                   ''end_tangent'' \<mapsto> Element (constraint_el 0),
                   ''end_tangent'' \<mapsto> Element (line_el 2)]))"
    by (simp add: InsertCurve_defs run_defs example_defs)
  then obtain gd where gd: "get_tangents (example_host 0) [arc_el, line_el 1, constraint_el 0]
        = ([], Inr gd)"
      "gd ''arc'' = Some (Element arc_el)"
      "gd ''start_tangent'' = Some (Element (line_el 1))"
      "gd ''end_tangent'' = Some (Element (line_el 2))"
    by simp
  have b: "get_binding_constraint (example_host 0) arc_el (el_index (line_el 1))
             = constraint_el 0"
    by (simp add: example_host_def)
  have g: "gui_selection (example_host 0) \<noteq> []"
    by (simp add: example_host_def)
  have v: "get_constrained_vertex (constraint_el 0) = Inr (- 1)"
    by (simp add: get_constrained_vertex_def constraint_el_def tangent_constraint_def)
  have "Activated (example_host 0) =
       ([Critical ''Invalid Constraint Error''
           ''Selected geometry are not properly constrained.''], Inr ())
   \<and> mutations (Activated (example_host 0)) = []"
    using get_constrained_vertex_index [OF c, of "example_host 0" "[]"
        "[arc_el, line_el 1, constraint_el 0]" "[]" gd arc_el "line_el 1" "line_el 2"]
      p sel gd b g
    by (simp add: mutations_def)
  then show ?thesis using c p v by (simp add: mutations_def)
qed

text \<open>
  C4: for each of the six error-type tags, \<open>_notify_error\<close> makes exactly one host call,
  the modal critical dialog whose title is the tag followed by " Error" and whose message
  is the fixed text of that tag; for every other tag the message is "UNDEFINED ERROR".
\<close>

theorem notify_error_dialog:
  "notify_error ''Selection'' =
     ([Critical ''Selection Error''
        ''Select two adjacent back tangents, two adjacent curves,             or an adjacent back tangent and curve to place curve.''], Inr ())
   \<and> notify_error ''Attached Geometry'' =
     ([Critical ''Attached Geometry Error'' ''Selected elements have attached arc.''], Inr ())
   \<and> notify_error ''Invalid Geometry'' =
     ([Critical ''Invalid Geometry Error''
        ''Selected elements have incorrect geometry.             Select either line segments or arcs.  Line segments must be             construction mode.''], Inr ())
   \<and> notify_error ''Invalid Constraint'' =
     ([Critical ''Invalid Constraint Error''
        ''Selected geometry are not properly constrained.''], Inr ())
   \<and> notify_error ''Not Coincident'' =
     ([Critical ''Not Coincident Error'' ''Selected geometry do not intersect.''], Inr ())
   \<and> notify_error ''No Arc'' =
     ([Critical ''No Arc Error'' ''Expected an arc to be selected.''], Inr ())
   \<and> (tag \<notin> set error_tags \<longrightarrow>
        notify_error tag = ([Critical (tag @ '' Error'') ''UNDEFINED ERROR''], Inr ()))"
  by (simp add: notify_error_def notify_message_def error_tags_def emit_def)

theorem notify_error_dialog_witness:
  "''Bogus'' \<notin> set error_tags
   \<and> notify_error ''Bogus'' = ([Critical ''Bogus Error'' ''UNDEFINED ERROR''], Inr ())"
  using notify_error_dialog [of "''Bogus''"]
  by (simp add: error_tags_def)

subsection \<open>Sorting two vectors\<close>

text \<open>
  Whatever the host computes for the cross product and however the interpreter compares
  its z-component with 0.0, \<open>_sort_vectors\<close> returns the two vectors of a pair, swapped
  exactly when that comparison holds.
\<close>

lemma sort_vectors_pair:
  "sort_vectors cross positive [a, b] =
     Inr (if positive (z (cross a b)) then [b, a] else [a, b])"
  by (simp add: sort_vectors_def py_index_def)

subsection \<open>The insertion sequence of InsertCurve\<close>

text \<open>
  \<open>Activated\<close> stores the new arc under the key \<open>"new arc"\<close> and \<open>_reconstrain\<close> reads
  the key \<open>"new_arc"\<close>, which no function of the module ever sets. The lemmas follow the
  dictionary through the insertion sequence: each step keeps every key but its own.
\<close>

lemma snd_ret: "snd (ret a) = Inr a"
  by (simp add: ret_def)

lemma fst_ret: "fst (ret a) = []"
  by (simp add: ret_def)

lemma raises_then_do:
  "(\<And>a. snd m = Inr a \<Longrightarrow> \<exists>e. snd (f a) = Inl e) \<Longrightarrow> \<exists>e. snd (then_do m f) = Inl e"
  by (cases "snd m") (auto simp: snd_then_do)

lemma delete_loop_keeps:
  "snd (delete_loop attached gd) = Inr gd' \<Longrightarrow> key \<noteq> ''adjacent'' \<Longrightarrow> gd' key = gd key"
  by (induction attached arbitrary: gd)
     (auto simp: snd_then_do ret_def emit_def Let_def split: if_splits)

lemma delete_constraints_keeps:
  "snd (delete_constraints h gd v) = Inr gd' \<Longrightarrow> key \<noteq> ''adjacent'' \<Longrightarrow> gd' key = gd key"
  by (auto simp: delete_constraints_def snd_then_do ret_def emit_def lift_def
      dest: delete_loop_keeps split: sum.splits)

lemma adjust_curve_keeps:
  "snd (adjust_curve h gd v f) = Inr gd' \<Longrightarrow> gd' = gd"
  by (auto simp: adjust_curve_def snd_then_do ret_def emit_def split: sum.splits)

lemma get_line_segments_keeps:
  "snd (get_line_segments h gd p) = Inr (b, gd') \<Longrightarrow> key \<noteq> ''p_i'' \<Longrightarrow> gd' key = gd key"
  by (auto simp: get_line_segments_def snd_then_do ret_def Let_def has_key_def raise_def
      split: sum.splits if_splits)

lemma get_arc_parameters_keeps:
  "snd (get_arc_parameters h gd v) = Inr gd' \<Longrightarrow> key \<noteq> ''p_i'' \<Longrightarrow> gd' key = gd key"
  by (auto simp: get_arc_parameters_def snd_then_do ret_def raise_def
      dest: get_line_segments_keeps split: sum.splits if_splits prod.splits)

lemma reconstrain_raises:
  "gd ''arc'' \<noteq> None \<Longrightarrow> gd ''new_arc'' = None \<Longrightarrow> v \<noteq> - 1
     \<Longrightarrow> \<exists>e. snd (reconstrain py3 gd v) = Inl e"
  by (auto simp: reconstrain_def snd_then_do getitem_def ret_def raise_def has_key_def
      split: option.splits)

lemma reconstrain_not_reached:
  "gd ''arc'' = Some PyNone \<Longrightarrow> \<exists>e. snd (get_arc_parameters h gd v) = Inl e"
  by (simp add: get_arc_parameters_def snd_then_do getitem_def ret_def attr_of_def raise_def)

lemma insertion_tail_raises:
  assumes "gd ''arc'' \<noteq> None" and "gd ''new_arc'' = None" and "v \<noteq> - 1"
  shows "\<exists>e. snd (then_do (get_arc_parameters h gd v) (\<lambda>geo_dict.
                then_do (emit (AddGeometry NewArc False)) (\<lambda>_.
                then_do (emit Recompute) (\<lambda>_.
                let geo_dict = geo_dict(''new arc'' \<mapsto> Geometry NewArc) in
                reconstrain (python3 h) geo_dict v)))) = Inl e"
proof (rule raises_then_do)
  fix gd' assume r: "snd (get_arc_parameters h gd v) = Inr gd'"
  have "gd' ''new_arc'' = None" "gd' ''arc'' \<noteq> None"
    using get_arc_parameters_keeps [OF r] assms by simp_all
  then have "\<exists>e. snd (reconstrain (python3 h) (gd'(''new arc'' \<mapsto> Geometry NewArc)) v) = Inl e"
    using assms(3) by (intro reconstrain_raises) simp_all
  then show "\<exists>e. snd (then_do (emit (AddGeometry NewArc False)) (\<lambda>_.
                then_do (emit Recompute) (\<lambda>_.
                let geo_dict = gd'(''new arc'' \<mapsto> Geometry NewArc) in
                reconstrain (python3 h) geo_dict v))) = Inl e"
    by (simp add: snd_then_do emit_def)
qed

lemma sort_selection_keys:
  "snd (sort_selection selection result) = Inr gd \<Longrightarrow> result ''new_arc'' = None
     \<Longrightarrow> result ''arc'' \<noteq> None \<Longrightarrow> gd ''new_arc'' = None \<and> gd ''arc'' \<noteq> None"
  by (induction selection arbitrary: result)
     (auto simp: snd_then_do ret_def split: sum.splits if_splits)

lemma find_end_tangent_keys:
  "snd (find_end_tangent attached result) = Inr gd \<Longrightarrow> result ''new_arc'' = None
     \<Longrightarrow> result ''arc'' \<noteq> None \<Longrightarrow> gd ''new_arc'' = None \<and> gd ''arc'' \<noteq> None"
  by (induction attached)
     (auto simp: snd_then_do ret_def split: sum.splits if_splits)

lemma get_tangents_keys:
  assumes "snd (get_tangents h selection) = Inr gd"
  shows "gd ''new_arc'' = None \<and> gd ''arc'' \<noteq> None"
proof -
  let ?init = "[''arc'' \<mapsto> PyNone, ''start_tangent'' \<mapsto> PyNone,
                 ''end_tangent'' \<mapsto> PyNone, ''constraint'' \<mapsto> PyNone]"
  obtain r where r: "snd (sort_selection selection ?init) = Inr r"
    using assms by (cases "snd (sort_selection selection ?init)")
      (auto simp: get_tangents_def snd_then_do)
  have k: "r ''new_arc'' = None \<and> r ''arc'' \<noteq> None"
    by (rule sort_selection_keys [OF r]) simp_all
  have "gd = r \<or> (\<exists>a. snd (find_end_tangent (match_attached_geometry h a) r) = Inr gd)"
    using assms r
    by (auto simp: get_tangents_def snd_then_do getitem_def ret_def attr_of_def raise_def
        split: sum.splits option.splits if_splits dict_value.splits)
  then show ?thesis
  proof
    assume "gd = r" then show ?thesis using k by simp
  next
    assume "\<exists>a. snd (find_end_tangent (match_attached_geometry h a) r) = Inr gd"
    then obtain a where "snd (find_end_tangent (match_attached_geometry h a) r) = Inr gd" ..
    then show ?thesis using k by (intro find_end_tangent_keys [of _ r gd]) simp_all
  qed
qed

lemma arc_branch_Some:
  assumes "snd (arc_branch h gd) = Inr (Some (gd', v))" and "gd ''new_arc'' = None"
    and "gd ''arc'' \<noteq> None"
  shows "0 \<le> v \<and> gd' ''new_arc'' = None \<and> gd' ''arc'' \<noteq> None"
proof -
  from assms(1) obtain c gd1 gd2 nt where
      v: "\<not> v < 0"
      and d: "snd (delete_constraints h (gd(''constraint'' \<mapsto> Element c)) v) = Inr gd1"
      and a: "snd (adjust_curve h gd1 v 0x3FD0000000000000) = Inr gd2"
      and g: "gd' = gd2(''new_tangent'' \<mapsto> Element nt, ''end_tangent'' \<mapsto> Element nt)"
    by (auto simp: arc_branch_def snd_then_do getitem_def ret_def raise_def attr_of_def
        lift_def Let_def notify_error_def emit_def
        split: sum.splits option.splits if_splits dict_value.splits)
  have "gd1 ''new_arc'' = None" "gd1 ''arc'' \<noteq> None"
    using delete_constraints_keeps [OF d, of "''new_arc''"]
      delete_constraints_keeps [OF d, of "''arc''"] assms(2,3) by simp_all
  then have "gd2 ''new_arc'' = None" "gd2 ''arc'' \<noteq> None"
    using adjust_curve_keeps [OF a] by simp_all
  then show ?thesis using v g by simp
qed

lemma mutations_arc_branch_None:
  assumes "snd (arc_branch h gd) = Inr None"
  shows "mutations (arc_branch h gd) = []"
  using assms
  by (auto simp: arc_branch_def snd_then_do fst_then_do mutations_def getitem_def ret_def
      raise_def attr_of_def lift_def Let_def notify_error_def emit_def
      split: sum.splits option.splits if_splits dict_value.splits)

lemma arc_branch_None:
  assumes "snd (arc_branch h gd) = Inr None"
    and "gd ''arc'' = Some (Element a)" and "gd ''start_tangent'' = Some (Element s)"
    and "gd ''end_tangent'' = Some e"
  shows "e = PyNone \<or> (\<exists>v. get_constrained_vertex (get_binding_constraint h a (el_index s)) = Inr v \<and> v < 0)"
  using assms
  by (auto simp: arc_branch_def snd_then_do getitem_def ret_def raise_def attr_of_def
      lift_def Let_def notify_error_def emit_def
      split: sum.splits option.splits if_splits)

lemma Activated_arc_path_raises:
  assumes "gui_selection h \<noteq> []"
    and "validate_selection h = (t, Inr (Some selection))"
    and "snd (get_tangents h selection) = Inr gd"
    and "gd ''arc'' = Some (Element a)"
    and "gd ''start_tangent'' = Some (Element s)"
    and "gd ''end_tangent'' = Some e" and "e \<noteq> PyNone"
    and "get_constrained_vertex (get_binding_constraint h a (el_index s)) = Inr v"
    and "0 \<le> v"
  shows "\<exists>err. snd (Activated h) = Inl err"
proof -
  let ?tail = "\<lambda>branch. case branch of
              None \<Rightarrow> ret ()
            | Some (geo_dict, vertex_index) \<Rightarrow>
                then_do (get_arc_parameters h geo_dict vertex_index) (\<lambda>geo_dict.
                then_do (emit (AddGeometry NewArc False)) (\<lambda>_.
                then_do (emit Recompute) (\<lambda>_.
                reconstrain (python3 h) (geo_dict(''new arc'' \<mapsto> Geometry NewArc))
                  vertex_index)))"
  have keys: "gd ''new_arc'' = None" "gd ''arc'' \<noteq> None"
    using get_tangents_keys [OF assms(3)] by simp_all
  let ?k = "\<lambda>selection. case selection of
          None \<Rightarrow> ret ()
        | Some selection \<Rightarrow>
            then_do (get_tangents h selection) (\<lambda>geo_dict.
            then_do (getitem geo_dict ''arc'') (\<lambda>arc.
            then_do (if arc \<noteq> PyNone then arc_branch h geo_dict
                     else ret (Some (geo_dict, - 1))) ?tail))"
  have A: "Activated h = then_do (validate_selection h) ?k"
    using assms(1) unfolding Activated_def Let_def by simp
  have "snd (Activated h) = snd (?k (Some selection))"
    unfolding A using assms(2) by (simp add: snd_then_do)
  also have "\<dots> = snd (then_do (arc_branch h gd) ?tail)"
    using assms(3,4) by (simp add: snd_then_do getitem_def snd_ret)
  finally have run: "snd (Activated h) = snd (then_do (arc_branch h gd) ?tail)" .
  have "\<exists>err. snd (then_do (arc_branch h gd) ?tail) = Inl err"
  proof (rule raises_then_do)
    fix branch assume b: "snd (arc_branch h gd) = Inr branch"
    show "\<exists>err. snd (?tail branch) = Inl err"
    proof (cases branch)
      case None
      then have "e = PyNone \<or> (\<exists>v. get_constrained_vertex
                   (get_binding_constraint h a (el_index s)) = Inr v \<and> v < 0)"
        using arc_branch_None [of h gd a s e] b assms(4,5,6) by simp
      then show ?thesis using assms(7,8,9) by auto
    next
      case (Some p)
      obtain gd' v' where p: "p = (gd', v')" by (cases p)
      have "0 \<le> v' \<and> gd' ''new_arc'' = None \<and> gd' ''arc'' \<noteq> None"
        using arc_branch_Some [of h gd gd' v'] b Some p keys by simp
      then show ?thesis
        using insertion_tail_raises [of gd' v' h] Some p by (simp add: Let_def)
    qed
  qed
  then show ?thesis using run by simp
qed

lemma Activated_never_completes_insertion:
  assumes "snd (Activated h) = Inr u"
  shows "mutations (Activated h) = []"
proof (cases "gui_selection h = []")
  case True
  then show ?thesis by (simp add: Activated_def)
next
  case False
  let ?tail = "\<lambda>branch. case branch of
              None \<Rightarrow> ret ()
            | Some (geo_dict, vertex_index) \<Rightarrow>
                then_do (get_arc_parameters h geo_dict vertex_index) (\<lambda>geo_dict.
                then_do (emit (AddGeometry NewArc False)) (\<lambda>_.
                then_do (emit Recompute) (\<lambda>_.
                reconstrain (python3 h) (geo_dict(''new arc'' \<mapsto> Geometry NewArc))
                  vertex_index)))"
  let ?k = "\<lambda>selection. case selection of
          None \<Rightarrow> ret ()
        | Some selection \<Rightarrow>
            then_do (get_tangents h selection) (\<lambda>geo_dict.
            then_do (getitem geo_dict ''arc'') (\<lambda>arc.
            then_do (if arc \<noteq> PyNone then arc_branch h geo_dict
                     else ret (Some (geo_dict, - 1))) ?tail))"
  have A: "Activated h = then_do (validate_selection h) ?k"
    using False unfolding Activated_def Let_def by simp
  obtain sel where sel: "snd (validate_selection h) = Inr sel"
    using assms A by (cases "snd (validate_selection h)") (auto simp: snd_then_do)
  have k: "snd (?k sel) = Inr u" using assms A sel by (simp add: snd_then_do)
  have m: "mutations (Activated h) = mutations (?k sel)"
    using A sel mutations_validate_selection [of h]
    by (simp add: mutations_def fst_then_do)
  show ?thesis
  proof (cases sel)
    case None
    then show ?thesis using m by simp
  next
    case (Some selection)
    obtain gd where gd: "snd (get_tangents h selection) = Inr gd"
      using k Some by (cases "snd (get_tangents h selection)") (auto simp: snd_then_do)
    have keys: "gd ''new_arc'' = None" "gd ''arc'' \<noteq> None"
      using get_tangents_keys [OF gd] by simp_all
    then obtain arc where arc: "gd ''arc'' = Some arc" by auto
    let ?b = "if arc \<noteq> PyNone then arc_branch h gd else ret (Some (gd, - 1))"
    have k2: "snd (then_do ?b ?tail) = Inr u"
      using k Some gd arc by (simp add: snd_then_do getitem_def snd_ret)
    have m2: "mutations (?k sel) = mutations (then_do ?b ?tail)"
      using Some gd arc get_tangents_no_events [of h selection]
      by (simp add: mutations_def fst_then_do getitem_def snd_ret fst_ret)
    obtain branch where branch: "snd ?b = Inr branch"
      using k2 by (cases "snd ?b") (auto simp: snd_then_do)
    have k3: "snd (?tail branch) = Inr u"
      using k2 branch by (simp add: snd_then_do)
    show ?thesis
    proof (cases "arc = PyNone")
      case True
      then have "branch = Some (gd, - 1)" using branch by (simp add: snd_ret)
      moreover have "\<exists>e. snd (get_arc_parameters h gd (- 1)) = Inl e"
        using reconstrain_not_reached arc True by simp
      ultimately show ?thesis using k3 by (auto simp: snd_then_do)
    next
      case False
      then have b: "snd (arc_branch h gd) = Inr branch" using branch by simp
      show ?thesis
      proof (cases branch)
        case None
        have "mutations (arc_branch h gd) = []"
          using mutations_arc_branch_None b None by simp
        then have "mutations (then_do ?b ?tail) = []"
          using False b None by (simp add: mutations_def fst_then_do fst_ret)
        then show ?thesis using m m2 by simp
      next
        case (Some p)
        obtain gd' v' where p: "p = (gd', v')" by (cases p)
        have "0 \<le> v' \<and> gd' ''new_arc'' = None \<and> gd' ''arc'' \<noteq> None"
          using arc_branch_Some [of h gd gd' v'] b Some p keys by simp
        then have "\<exists>e. snd (?tail branch) = Inl e"
          using insertion_tail_raises [of gd' v' h] Some p by (simp add: Let_def)
        then show ?thesis using k3 by simp
      qed
    qed
  qed
qed

text \<open>
  C1 says that an invocation of \<open>Activated\<close> whose validated selection contains an arc,
  whose opposite back tangent is resolved and whose constrained vertex index is not
  negative completes the whole insertion sequence without raising an exception. On the
  example sketch the command deletes the constraint, moves the arc's vertex, adds the new
  back tangent with its three constraints and adds the new arc; then, under Python 2,
  \<open>_reconstrain\<close> raises \<open>KeyError\<close> for the key \<open>"new_arc"\<close>, and under Python 3
  \<open>_get_line_segments\<close> raises \<open>AttributeError\<close> for \<open>has_key\<close> before the arc is added.
\<close>

theorem Activated_arc_insertion_raises:
  "Activated (example_host 1) =
     ([DelConstraint 0, Recompute, MovePoint 0 1, Recompute,
       AddGeometry NewTangentSegment True, Recompute,
       AddConstraint ''PointOnObject'' [3, 1, 1],
       AddConstraint ''PointOnObject'' [3, 2, 2], Recompute,
       AddConstraint ''Tangent'' [0, 1, 3], Recompute,
       HostCall ''print arc vertex'', AddGeometry NewArc False, Recompute],
      Inl (KeyError ''new_arc''))
   \<and> Activated (example_host3 1) =
     ([DelConstraint 0, Recompute, MovePoint 0 1, Recompute,
       AddGeometry NewTangentSegment True, Recompute,
       AddConstraint ''PointOnObject'' [3, 1, 1],
       AddConstraint ''PointOnObject'' [3, 2, 2], Recompute,
       AddConstraint ''Tangent'' [0, 1, 3], Recompute,
       HostCall ''print arc vertex''],
      Inl (AttributeError ''has_key''))"
  by (simp add: InsertCurve_defs run_defs example_defs example_host3_def)

subsection \<open>Box culvert tools\<close>

text \<open>
  C2 says that a command that reports an error during selection validation returns with
  the document in its prior state. \<open>add_1_cell_box\<close> adds the group \<open>BoxCulvert1Cell\<close> to
  the document before it looks at the selection: with nothing selected, and with a
  selected object that is no alignment, it prints its message and returns \<open>None\<close> after
  that mutation.
\<close>

theorem add_1_cell_box_mutates_before_validation:
  "add_1_cell_box [] =
     ([AddObject ''App::DocumentObjectGroupPython'' ''BoxCulvert1Cell'',
       HostCall ''Label'', HostCall ''BoxCulvert'', Print ''No alignment selected''],
      Inr None)
   \<and> mutations (add_1_cell_box []) =
       [AddObject ''App::DocumentObjectGroupPython'' ''BoxCulvert1Cell'']
   \<and> add_1_cell_box [\<lparr> Proxy = NoProxy, Group = [] \<rparr>] =
     ([AddObject ''App::DocumentObjectGroupPython'' ''BoxCulvert1Cell'',
       HostCall ''Label'', HostCall ''BoxCulvert'', Print ''Invalid selection for sweep''],
      Inr None)"
  by (simp add: add_1_cell_box_def run_defs mutations_def)

text \<open>
  C7 says that in every handler each direct mutation of the document is followed by a
  recompute before the handler returns. \<open>add_headwall\<close>, called on a culvert body whose
  parent group holds no parameters object, adds the group \<open>Headwall\<close>, prints that it
  finds no parameters object and returns: no recompute follows the \<open>addObject\<close>.
\<close>

theorem add_headwall_returns_without_recompute:
  "add_headwall \<lparr> EndWall_validate_selection = True,
       getParentGeoFeatureGroup =
         [Some \<lparr> body_TypeId = ''PartDesign::Body'', getParentGroup = Some [''Alignment''] \<rparr>] \<rparr> =
     ([Print ''Unimplemented'', HostCall ''EndWall.validate_selection'',
       AddObject ''App::DocumentObjectGroupPython'' ''Headwall'', HostCall ''Label'',
       Print ''Unable to find Parameters object''], Inr ())
   \<and> \<not> recomputed
       [Print ''Unimplemented'', HostCall ''EndWall.validate_selection'',
        AddObject ''App::DocumentObjectGroupPython'' ''Headwall'', HostCall ''Label'',
        Print ''Unable to find Parameters object'']"
  by (simp add: add_headwall_def get_body_def get_parameters_def run_defs)

subsection \<open>ImportTask\<close>

text \<open>
  C5 says that for a path that names an openable file \<open>examine_file\<close> raises no exception
  and sets the delimiter field and the headers checkbox from the sniffer. For every such
  path, whatever the sniffer would answer, the function raises \<open>TypeError\<close> at
  \<open>stream(1024)\<close>, before it calls the sniffer and with no field set.
\<close>

theorem examine_file_openable_raises:
  "files file_path = Some content \<Longrightarrow>
     examine_file py3 files sniff has_header file_path =
       ([], Inl (TypeError ''file object is not callable''))"
  by (simp add: examine_file_def call_stream_def run_defs)

theorem examine_file_openable_raises_witness:
  "[''alignment.csv'' \<mapsto> ''x,y''] ''alignment.csv'' = Some ''x,y''
   \<and> examine_file True [''alignment.csv'' \<mapsto> ''x,y''] (\<lambda>s. Inr '','') (\<lambda>s. Inr True)
       ''alignment.csv'' = ([], Inl (TypeError ''file object is not callable''))"
  using examine_file_openable_raises
    [of "[''alignment.csv'' \<mapsto> ''x,y'']" "''alignment.csv''" "''x,y''" True
        "\<lambda>s. Inr '',''" "\<lambda>s. Inr True"]
  by simp

subsection \<open>GenerateLoft\<close>









end
